theory Spec2Isabelle
  imports Main
begin

section \<open>Cache invalidation layer (planetarium/signals.py)\<close>

text \<open>
  The Django model classes that act as signal senders. The receiver in signals.py is
  registered without a sender filter, so it is called for every model of the project,
  also for the ones that are not keys of \<open>CACHE_PATTERNS\<close> (\<open>Ticket\<close>, the user model).
\<close>

datatype model = ShowTheme | PlanetariumDome | AstronomyShow | ShowSession
  | Reservation | Ticket | User

text \<open>The two signals the receiver is connected to; \<open>post_save\<close> carries the
  \<open>created\<close> flag (True for a create, False for an update).\<close>

datatype signal = post_save bool | post_delete

text \<open>
  The cache behind \<open>django.core.cache.cache\<close>: the stored entries by key, and whether
  the cache server can be reached. A call on an unreachable cache raises.
\<close>

datatype cache_error = ConnectionError

record 'v cache =
  entries :: "(string \<times> 'v) list"
  available :: bool

text \<open>
  Glob matching of a key against a pattern, as the cache server does it for
  \<open>delete_pattern\<close>. Only the constructs that occur in \<open>CACHE_PATTERNS\<close> are modelled:
  \<open>*\<close> stands for any run of characters, every other character for itself.
\<close>

fun glob :: "string \<Rightarrow> string \<Rightarrow> bool" where
  "glob [] [] = True"
| "glob [] (c # cs) = False"
| "glob (p # ps) [] = (p = CHR ''*'' \<and> glob ps [])"
| "glob (p # ps) (c # cs) =
     (if p = CHR ''*'' then glob ps (c # cs) \<or> glob (p # ps) cs
      else p = c \<and> glob ps cs)"

text \<open>\<open>cache.delete_pattern(pattern)\<close>: drops every entry whose key matches.\<close>

definition delete_pattern :: "string \<Rightarrow> 'v cache \<Rightarrow> cache_error + 'v cache" where
  "delete_pattern pattern c =
     (if available c
      then Inr (c\<lparr>entries := filter (\<lambda>e. \<not> glob pattern (fst e)) (entries c)\<rparr>)
      else Inl ConnectionError)"

text \<open>The dict \<open>CACHE_PATTERNS\<close>, read with \<open>.get\<close>: a missing key gives \<open>None\<close>.\<close>

fun CACHE_PATTERNS :: "model \<Rightarrow> string option" where
  "CACHE_PATTERNS ShowTheme = Some ''*show_theme_view*''"
| "CACHE_PATTERNS PlanetariumDome = Some ''*planetarium_dome_view*''"
| "CACHE_PATTERNS AstronomyShow = Some ''*astronomy_show_view*''"
| "CACHE_PATTERNS ShowSession = Some ''*show_session_view*''"
| "CACHE_PATTERNS Reservation = Some ''*reservation_view*''"
| "CACHE_PATTERNS Ticket = None"
| "CACHE_PATTERNS User = None"

text \<open>
  \<^verbatim>\<open>
  @receiver([post_save, post_delete])
  def invalidate_cache(sender, instance, **kwargs):
      pattern = CACHE_PATTERNS.get(sender)
      if pattern:
          cache.delete_pattern(pattern)
  \<close>
  \<open>if pattern\<close> is false for \<open>None\<close> and for the empty string. The body has no
  \<open>try\<close>: what \<open>delete_pattern\<close> raises leaves the receiver as it is.
\<close>

definition invalidate_cache ::
  "model \<Rightarrow> 'i \<Rightarrow> signal \<Rightarrow> 'v cache \<Rightarrow> cache_error + 'v cache" where
  "invalidate_cache sender instance sig c =
     (case CACHE_PATTERNS sender of
        None \<Rightarrow> Inr c
      | Some pattern \<Rightarrow> if pattern \<noteq> [] then delete_pattern pattern c else Inr c)"

section \<open>Data model\<close>

text \<open>
  The model classes (planetarium/models.py) are not among the sources; the records follow
  the fields the tests and views use (\<open>PlanetariumDome(name, rows, seats_in_row)\<close>,
  \<open>ShowSession(astronomy_show, planetarium_dome, show_time)\<close>,
  \<open>Ticket(row, seat, show_session, reservation)\<close>, \<open>Reservation(user)\<close>). Foreign keys are
  the referenced primary keys; Python integers are \<open>int\<close>.
\<close>

record planetarium_dome =
  dome_id :: nat
  dome_name :: string
  rows :: int
  seats_in_row :: int

record show_session =
  session_id :: nat
  astronomy_show :: "nat option"
  planetarium_dome :: nat
  show_time :: string

record reservation =
  reservation_id :: nat
  user :: nat

record ticket =
  row :: int
  seat :: int
  show_session :: nat
  reservation :: nat

text \<open>The tables of the relational store, in insertion order, and the next primary key
  of the reservation table.\<close>

record store =
  domes :: "planetarium_dome list"
  show_sessions :: "show_session list"
  reservations :: "reservation list"
  tickets :: "ticket list"
  next_reservation_id :: nat

text \<open>Modelled from the spec: the property \<open>PlanetariumDome.capacity\<close> of models.py, which
  is not among the sources: "Derived attribute capacity = rows * seats_in_row".\<close>

definition capacity :: "planetarium_dome \<Rightarrow> int" where
  "capacity d = rows d * seats_in_row d"

definition find_session :: "store \<Rightarrow> nat \<Rightarrow> show_session option" where
  "find_session st pk = find (\<lambda>s. session_id s = pk) (show_sessions st)"

definition session_dome :: "store \<Rightarrow> show_session \<Rightarrow> planetarium_dome option" where
  "session_dome st s = find (\<lambda>d. dome_id d = planetarium_dome s) (domes st)"

section \<open>Availability (planetarium/views.py, ShowSessionViewSet)\<close>

text \<open>
  \<^verbatim>\<open>
  queryset = ShowSession.objects.select_related(
      "astronomy_show", "planetarium_dome"
  ).annotate(
      tickets_available=(
          F("planetarium_dome__rows") * F("planetarium_dome__seats_in_row")
          - Count("tickets")
      )
  )
  \<close>
  The annotation is evaluated by the database when the queryset is: the session row is
  joined with its dome and left-joined with the tickets that reference it, the rows are
  grouped by session, and \<open>Count\<close> counts the joined ticket rows that are not NULL. A
  session without tickets keeps one row, with NULL in the ticket columns.

  The product and the difference of the \<open>F\<close> expression are computed by the database
  engine, in the engine's integer arithmetic and not in Python's. Which engine that is, is
  set in the project's settings, which are not among the sources: the engine's product
  and difference are parameters. \<open>None\<close> stands for the engine raising (PostgreSQL:
  "integer out of range"); an engine that returns an approximation instead (SQLite goes
  over to floating point) is one whose functions return that value.
\<close>

record engine =
  engine_mul :: "int \<Rightarrow> int \<Rightarrow> int option"
  engine_sub :: "int \<Rightarrow> int \<Rightarrow> int option"

text \<open>The arithmetic of PostgreSQL on the columns of this queryset: \<open>rows\<close> and
  \<open>seats_in_row\<close> are 32-bit integer columns and so is their product; the count is a
  64-bit integer and so is the difference. A result out of range raises.\<close>

definition int4_engine :: engine where
  "int4_engine =
     \<lparr>engine_mul = (\<lambda>a b. if - (2 ^ 31) \<le> a * b \<and> a * b < 2 ^ 31 then Some (a * b) else None),
      engine_sub = (\<lambda>a b. if - (2 ^ 63) \<le> a - b \<and> a - b < 2 ^ 63 then Some (a - b) else None)\<rparr>"

datatype db_error = DataError

definition joined_tickets :: "store \<Rightarrow> show_session \<Rightarrow> ticket option list" where
  "joined_tickets st s =
     (case filter (\<lambda>t. show_session t = session_id s) (tickets st) of
        [] \<Rightarrow> [None]
      | t # ts \<Rightarrow> map Some (t # ts))"

definition Count :: "'a option list \<Rightarrow> int" where
  "Count xs = int (length (filter (\<lambda>x. x \<noteq> None) xs))"

text \<open>The annotated value of a session: \<open>Inr None\<close> when the inner join with the dome
  gives no row, \<open>Inl DataError\<close> when the engine raises on the arithmetic.\<close>

definition tickets_available :: "engine \<Rightarrow> store \<Rightarrow> show_session \<Rightarrow> db_error + int option" where
  "tickets_available e st s =
     (case session_dome st s of
        None \<Rightarrow> Inr None
      | Some d \<Rightarrow>
          (case engine_mul e (rows d) (seats_in_row d) of
             None \<Rightarrow> Inl DataError
           | Some p \<Rightarrow>
               (case engine_sub e p (Count (joined_tickets st s)) of
                  None \<Rightarrow> Inl DataError
                | Some a \<Rightarrow> Inr (Some a))))"

text \<open>\<open>GET /show_sessions/{pk}\<close> on the queryset: the annotated value of the session with
  that primary key, \<open>Inr None\<close> when there is no such row (a 404 response).\<close>

definition retrieve :: "engine \<Rightarrow> store \<Rightarrow> nat \<Rightarrow> db_error + int option" where
  "retrieve e st pk =
     (case find_session st pk of None \<Rightarrow> Inr None | Some s \<Rightarrow> tickets_available e st s)"

text \<open>
  \<^verbatim>\<open>
  @method_decorator(cache_page(60 * 5, key_prefix="show_session_view"))
  def dispatch(self, request, *args, **kwargs):
      return super().dispatch(request, *args, **kwargs)
  \<close>
  \<open>cache_page\<close> for a GET request: the response stored under the request's cache key is
  returned while it has not expired; otherwise the view runs, and a 200 response is
  stored for \<open>60 * 5\<close> seconds. \<open>now\<close> is the time of the request in seconds, \<open>key\<close> the
  cache key the framework derives from the key prefix and the URL. An entry holds its
  expiry time and the cached value. An error of the cache or of the database leaves
  \<open>dispatch\<close> as an exception, and nothing is stored.
\<close>

datatype view_error = CacheError cache_error | DatabaseError db_error

definition cache_timeout :: nat where
  "cache_timeout = 60 * 5"

definition cache_get :: "string \<Rightarrow> nat \<Rightarrow> (nat \<times> 'v) cache \<Rightarrow> cache_error + 'v option" where
  "cache_get key now c =
     (if available c
      then Inr (case map_of (entries c) key of
                  None \<Rightarrow> None
                | Some (expires, v) \<Rightarrow> if now < expires then Some v else None)
      else Inl ConnectionError)"

definition cache_set ::
  "string \<Rightarrow> 'v \<Rightarrow> nat \<Rightarrow> nat \<Rightarrow> (nat \<times> 'v) cache \<Rightarrow> cache_error + (nat \<times> 'v) cache" where
  "cache_set key v timeout now c =
     (if available c
      then Inr (c\<lparr>entries := (key, (now + timeout, v)) # filter (\<lambda>e. fst e \<noteq> key) (entries c)\<rparr>)
      else Inl ConnectionError)"

definition dispatch ::
  "engine \<Rightarrow> nat \<Rightarrow> string \<Rightarrow> nat \<Rightarrow> store \<Rightarrow> (nat \<times> int) cache
     \<Rightarrow> view_error + (int option \<times> (nat \<times> int) cache)" where
  "dispatch e now key pk st c =
     (case cache_get key now c of
        Inl err \<Rightarrow> Inl (CacheError err)
      | Inr (Some v) \<Rightarrow> Inr (Some v, c)
      | Inr None \<Rightarrow>
          (case retrieve e st pk of
             Inl err \<Rightarrow> Inl (DatabaseError err)
           | Inr None \<Rightarrow> Inr (None, c)
           | Inr (Some v) \<Rightarrow>
               (case cache_set key v cache_timeout now c of
                  Inl err \<Rightarrow> Inl (CacheError err)
                | Inr c' \<Rightarrow> Inr (Some v, c'))))"

section \<open>Reservation engine\<close>

text \<open>
  planetarium/serializers.py and planetarium/models.py, which hold the ticket validation
  and the creation of a reservation, are not among the sources (only their tests and the
  view that calls them are). The definitions of this section are modelled from the
  specification, sections 4.1, 4.2 and 7.
\<close>

datatype field = Row | Seat

datatype error =
    OutOfBoundsError field int int
  | EmptyReservationError
  | ValidationError nat error
  | SeatTakenError nat int int
  | NotFoundError

text \<open>Modelled from the spec: the seat validator of section 4.1 (the method of models.py
  that the tests reach through \<open>full_clean\<close> and the serializers is missing). "Verify
  1 <= row <= session.dome.rows and 1 <= seat <= session.dome.seats_in_row. Fails with
  OutOfBoundsError naming the offending field and the valid range otherwise." The dome is
  the session's dome; the row is checked before the seat.\<close>

definition validate_ticket :: "int \<Rightarrow> int \<Rightarrow> planetarium_dome \<Rightarrow> error + unit" where
  "validate_ticket r s d =
     (if \<not> (1 \<le> r \<and> r \<le> rows d) then Inl (OutOfBoundsError Row 1 (rows d))
      else if \<not> (1 \<le> s \<and> s \<le> seats_in_row d) then Inl (OutOfBoundsError Seat 1 (seats_in_row d))
      else Inr ())"

text \<open>A ticket request of the body of \<open>POST /reservations\<close>: (row, seat, show_session).\<close>

type_synonym ticket_request = "int \<times> int \<times> nat"

text \<open>Modelled from the spec: step 2 of createReservation. "For each request, run the
  Seat/Capacity Validator; on first failure, abort the whole operation with
  ValidationError carrying the index and reason." A request whose session or dome does
  not exist fails with NotFoundError (section 7).\<close>

fun validate_requests :: "store \<Rightarrow> nat \<Rightarrow> ticket_request list \<Rightarrow> error + unit" where
  "validate_requests st i [] = Inr ()"
| "validate_requests st i ((r, s, pk) # reqs) =
     (case find_session st pk of
        None \<Rightarrow> Inl NotFoundError
      | Some sess \<Rightarrow>
          (case session_dome st sess of
             None \<Rightarrow> Inl NotFoundError
           | Some d \<Rightarrow>
               (case validate_ticket r s d of
                  Inl e \<Rightarrow> Inl (ValidationError i e)
                | Inr _ \<Rightarrow> validate_requests st (Suc i) reqs)))"

definition seat_taken :: "store \<Rightarrow> nat \<Rightarrow> int \<Rightarrow> int \<Rightarrow> bool" where
  "seat_taken st pk r s =
     list_ex (\<lambda>t. show_session t = pk \<and> row t = r \<and> seat t = s) (tickets st)"

text \<open>Modelled from the spec: the advisory pre-check of step 3. "Re-check for each
  (session, row, seat) triple that no existing ticket already occupies it. If any triple
  collides, abort the whole transaction with SeatTakenError naming the conflicting seat."\<close>

fun check_seats_free :: "store \<Rightarrow> ticket_request list \<Rightarrow> error + unit" where
  "check_seats_free st [] = Inr ()"
| "check_seats_free st ((r, s, pk) # reqs) =
     (if seat_taken st pk r s then Inl (SeatTakenError pk r s) else check_seats_free st reqs)"

text \<open>Modelled from the spec: the insert of one ticket row under the storage layer's
  uniqueness constraint on (show_session, row, seat); a violation is translated into
  SeatTakenError (sections 4.2 and 7).\<close>

definition insert_ticket :: "ticket \<Rightarrow> store \<Rightarrow> (error + unit) \<times> store" where
  "insert_ticket t st =
     (if seat_taken st (show_session t) (row t) (seat t)
      then (Inl (SeatTakenError (show_session t) (row t) (seat t)), st)
      else (Inr (), st\<lparr>tickets := tickets st @ [t]\<rparr>))"

fun insert_tickets :: "nat \<Rightarrow> ticket_request list \<Rightarrow> store \<Rightarrow> (error + ticket list) \<times> store" where
  "insert_tickets rid [] st = (Inr [], st)"
| "insert_tickets rid ((r, s, pk) # reqs) st =
     (let t = \<lparr>row = r, seat = s, show_session = pk, reservation = rid\<rparr> in
      case insert_ticket t st of
        (Inl e, st') \<Rightarrow> (Inl e, st')
      | (Inr _, st') \<Rightarrow>
          (case insert_tickets rid reqs st' of
             (Inl e, st'') \<Rightarrow> (Inl e, st'')
           | (Inr ts, st'') \<Rightarrow> (Inr (t # ts), st'')))"

definition insert_reservation :: "nat \<Rightarrow> store \<Rightarrow> reservation \<times> store" where
  "insert_reservation u st =
     (let res = \<lparr>reservation_id = next_reservation_id st, user = u\<rparr> in
      (res, st\<lparr>reservations := reservations st @ [res],
               next_reservation_id := Suc (next_reservation_id st)\<rparr>))"

text \<open>Modelled from the spec: the atomic transaction of steps 3 and 4. The body writes to
  the store as it runs; when it fails, the store is rolled back to what it was when the
  transaction began.\<close>

definition atomic :: "(store \<Rightarrow> (error + 'a) \<times> store) \<Rightarrow> store \<Rightarrow> (error + 'a) \<times> store" where
  "atomic body st =
     (case body st of
        (Inl e, st') \<Rightarrow> (Inl e, st)
      | (Inr x, st') \<Rightarrow> (Inr x, st'))"

definition reserve_body ::
  "nat \<Rightarrow> ticket_request list \<Rightarrow> store \<Rightarrow> (error + reservation \<times> ticket list) \<times> store" where
  "reserve_body u reqs st =
     (case check_seats_free st reqs of
        Inl e \<Rightarrow> (Inl e, st)
      | Inr _ \<Rightarrow>
          (case insert_reservation u st of
             (res, st1) \<Rightarrow>
               (case insert_tickets (reservation_id res) reqs st1 of
                  (Inl e, st2) \<Rightarrow> (Inl e, st2)
                | (Inr ts, st2) \<Rightarrow> (Inr (res, ts), st2))))"

text \<open>Modelled from the spec: \<open>createReservation(user, ticketRequests)\<close>, section 4.2, steps
  1 to 5. The result is the value returned (or the error raised) and the store after the
  call.\<close>

definition createReservation ::
  "store \<Rightarrow> nat \<Rightarrow> ticket_request list \<Rightarrow> (error + reservation \<times> ticket list) \<times> store" where
  "createReservation st u reqs =
     (if reqs = [] then (Inl EmptyReservationError, st)
      else case validate_requests st 0 reqs of
             Inl e \<Rightarrow> (Inl e, st)
           | Inr _ \<Rightarrow> atomic (reserve_body u reqs) st)"

text \<open>Modelled from the spec: the HTTP status of each error, section 7.\<close>

fun http_status :: "error \<Rightarrow> nat" where
  "http_status (OutOfBoundsError f lo hi) = 400"
| "http_status EmptyReservationError = 400"
| "http_status (ValidationError i e) = 400"
| "http_status (SeatTakenError pk r s) = 400"
| "http_status NotFoundError = 404"





section \<open>Example data\<close>

text \<open>The dome and the session of the model tests (\<open>ModelsTestCase.setUp\<close>): ten rows of
  ten seats.\<close>

definition main_dome :: planetarium_dome where
  "main_dome = \<lparr>dome_id = 1, dome_name = ''Main Dome'', rows = 10, seats_in_row = 10\<rparr>"

definition session1 :: show_session where
  "session1 = \<lparr>session_id = 1, astronomy_show = Some 1, planetarium_dome = 1,
               show_time = ''2024-12-30 14:00:00''\<rparr>"

definition store0 :: store where
  "store0 = \<lparr>domes = [main_dome], show_sessions = [session1], reservations = [],
             tickets = [], next_reservation_id = 1\<rparr>"

definition ticket55 :: ticket where
  "ticket55 = \<lparr>row = 5, seat = 5, show_session = 1, reservation = 1\<rparr>"

definition store1 :: store where
  "store1 = \<lparr>domes = [main_dome], show_sessions = [session1],
             reservations = [\<lparr>reservation_id = 1, user = 7\<rparr>],
             tickets = [ticket55], next_reservation_id = 2\<rparr>"

text \<open>A dome of 50000 rows of 50000 seats, whose capacity 2500000000 is beyond 32 bits.\<close>

definition huge_dome :: planetarium_dome where
  "huge_dome = \<lparr>dome_id = 1, dome_name = ''Huge'', rows = 50000, seats_in_row = 50000\<rparr>"

definition huge_store :: store where
  "huge_store = \<lparr>domes = [huge_dome], show_sessions = [session1], reservations = [],
                 tickets = [], next_reservation_id = 1\<rparr>"

definition session_key :: string where
  "session_key = ''views.decorators.cache.cache_page.show_session_view.GET.3f2a''"

definition theme_key :: string where
  "theme_key = ''views.decorators.cache.cache_page.show_theme_view.GET.9c41''"

definition cache0 :: "(nat \<times> int) cache" where
  "cache0 = \<lparr>entries = [], available = True\<rparr>"

definition cache1 :: "(nat \<times> int) cache" where
  "cache1 = \<lparr>entries = [(session_key, (300, 100))], available = True\<rparr>"

definition cache_down :: "(nat \<times> int) cache" where
  "cache_down = \<lparr>entries = [(session_key, (300, 100))], available = False\<rparr>"

section \<open>Auxiliary facts\<close>

lemmas example_defs = store0_def store1_def ticket55_def session1_def main_dome_def
  huge_dome_def huge_store_def
  cache0_def cache1_def cache_down_def session_key_def theme_key_def

lemmas engine_defs = createReservation_def atomic_def reserve_body_def insert_reservation_def
  insert_ticket_def seat_taken_def find_session_def session_dome_def validate_ticket_def

lemmas read_defs = dispatch_def cache_get_def cache_set_def retrieve_def tickets_available_def
  int4_engine_def
  joined_tickets_def Count_def cache_timeout_def find_session_def session_dome_def

lemmas signal_defs = invalidate_cache_def delete_pattern_def

text \<open>Counting the non-NULL rows of the left join counts the session's tickets.\<close>

lemma Count_joined_tickets:
  "Count (joined_tickets st s)
     = int (length (filter (\<lambda>t. show_session t = session_id s) (tickets st)))"
proof (cases "filter (\<lambda>t. show_session t = session_id s) (tickets st)")
  case Nil
  then show ?thesis by (simp add: Count_def joined_tickets_def)
next
  case (Cons t ts)
  have "filter (\<lambda>x. x \<noteq> None) (map Some (t # ts)) = map Some (t # ts)"
    by (rule filter_True) auto
  with Cons show ?thesis by (simp add: Count_def joined_tickets_def del: list.map)
qed

text \<open>The 32-bit engine is exact as long as the capacity fits 32 bits and the count 63.\<close>

lemma int4_engine_exact:
  assumes "0 \<le> a * b" "a * b < 2 ^ 31" "0 \<le> n" "n < 2 ^ 63"
  shows "engine_mul int4_engine a b = Some (a * b)"
    and "engine_sub int4_engine (a * b) n = Some (a * b - n)"
  using assms by (simp_all add: int4_engine_def)

text \<open>Step 2 fails as soon as one request of the list is outside its dome.\<close>

lemma validate_requests_fails:
  assumes "(r, s, pk) \<in> set reqs" "find_session st pk = Some sess"
    "session_dome st sess = Some d"
    "\<not> (1 \<le> r \<and> r \<le> rows d \<and> 1 \<le> s \<and> s \<le> seats_in_row d)"
  shows "\<exists>e. validate_requests st i reqs = Inl e"
  using assms(1)
proof (induction reqs arbitrary: i)
  case Nil
  then show ?case by simp
next
  case (Cons q reqs)
  obtain r' s' pk' where q: "q = (r', s', pk')" by (cases q)
  show ?case
  proof (cases "q = (r, s, pk)")
    case True
    with assms(2-4) show ?thesis
      by (auto simp: validate_ticket_def)
  next
    case False
    with Cons.prems have "(r, s, pk) \<in> set reqs" by simp
    from Cons.IH[OF this] show ?thesis
      by (auto simp: q split: option.splits sum.splits)
  qed
qed







text \<open>What the matcher decides for the patterns of the registry, which all have the form
  \<open>*w*\<close> with no \<open>*\<close> in \<open>w\<close>: the key contains \<open>w\<close>.\<close>

lemma glob_star_only: "glob ''*'' s"
  by (induction s) simp_all

lemma glob_literal_then_star:
  "CHR ''*'' \<notin> set w \<Longrightarrow> glob (w @ ''*'') s = (\<exists>b. s = w @ b)"
proof (induction w arbitrary: s)
  case Nil
  then show ?case by (simp add: glob_star_only)
next
  case (Cons x w)
  then show ?case by (cases s) auto
qed

lemma glob_leading_star:
  "glob (CHR ''*'' # p) s = (\<exists>a b. s = a @ b \<and> glob p b)"
proof (induction s)
  case Nil
  then show ?case by simp
next
  case (Cons c cs)
  then show ?case by (auto simp: Cons_eq_append_conv)
qed

lemma glob_infix:
  assumes "CHR ''*'' \<notin> set w"
  shows "glob (CHR ''*'' # w @ ''*'') key = (\<exists>a b. key = a @ w @ b)"
  unfolding glob_leading_star glob_literal_then_star[OF assms] by blast

lemma session_pattern_is_infix:
  "glob ''*show_session_view*'' key = (\<exists>a b. key = a @ ''show_session_view'' @ b)"
  using glob_infix[of "''show_session_view''" key] by simp

text \<open>Each of the five keys of the registry has a pattern, and none is empty.\<close>

lemma watched_pattern:
  assumes "sender \<in> {ShowTheme, PlanetariumDome, AstronomyShow, ShowSession, Reservation}"
  shows "\<exists>pattern. CACHE_PATTERNS sender = Some pattern \<and> pattern \<noteq> []"
  using assms by auto

text \<open>Right after a response is stored, a read at time \<open>t\<close> finds it until it expires.\<close>

lemma cache_get_after_set:
  "cache_set key v timeout now c = Inr c' \<Longrightarrow>
     cache_get key t c' = Inr (if t < now + timeout then Some v else None)"
  by (auto simp: cache_set_def cache_get_def split: if_splits)

section \<open>Reservation engine: validation and atomicity\<close>

text \<open>
  C2. A reservation request that contains a ticket whose row or seat lies outside the grid
  of its session's dome fails, and the store after the call is the store before it: no
  reservation row and no ticket row is persisted, whatever the other tickets of the
  request are.
\<close>

theorem invalid_ticket_aborts_whole_reservation:
  assumes "(r, s, pk) \<in> set reqs" "find_session st pk = Some sess"
    "session_dome st sess = Some d"
    "\<not> (1 \<le> r \<and> r \<le> rows d \<and> 1 \<le> s \<and> s \<le> seats_in_row d)"
  shows "\<exists>e. createReservation st u reqs = (Inl e, st)"
proof -
  from assms(1) have ne: "reqs \<noteq> []" by auto
  from validate_requests_fails[OF assms] obtain e where
    "validate_requests st 0 reqs = Inl e" by blast
  with ne show ?thesis by (simp add: createReservation_def)
qed

text \<open>The request of the spec's atomicity example: one valid ticket and one in row 15 of
  a dome with ten rows.\<close>

theorem invalid_ticket_aborts_whole_reservation_witness:
  "(15, 5, 1) \<in> set [(5, 5, 1), (15, 5, 1 :: nat)]
   \<and> find_session store0 1 = Some session1
   \<and> session_dome store0 session1 = Some main_dome
   \<and> \<not> (1 \<le> (15::int) \<and> 15 \<le> rows main_dome \<and> 1 \<le> (5::int) \<and> 5 \<le> seats_in_row main_dome)
   \<and> createReservation store0 7 [(5, 5, 1), (15, 5, 1)]
       = (Inl (ValidationError 1 (OutOfBoundsError Row 1 10)), store0)"
  using invalid_ticket_aborts_whole_reservation
    [of 15 5 1 "[(5, 5, 1), (15, 5, 1)]" store0 session1 main_dome 7]
  by (simp add: engine_defs example_defs)



text \<open>
  C4. The validator accepts a candidate ticket exactly when 1 <= row <= rows and
  1 <= seat <= seats_in_row of the session's dome. Every other ticket is rejected with
  OutOfBoundsError, which names a field that is out of range (the row when the row is,
  the seat otherwise) and that field's valid range.
\<close>

theorem validate_ticket_iff_in_grid:
  "(validate_ticket r s d = Inr ())
     = (1 \<le> r \<and> r \<le> rows d \<and> 1 \<le> s \<and> s \<le> seats_in_row d)
   \<and> (\<not> (1 \<le> r \<and> r \<le> rows d)
        \<longrightarrow> validate_ticket r s d = Inl (OutOfBoundsError Row 1 (rows d)))
   \<and> ((1 \<le> r \<and> r \<le> rows d) \<and> \<not> (1 \<le> s \<and> s \<le> seats_in_row d)
        \<longrightarrow> validate_ticket r s d = Inl (OutOfBoundsError Seat 1 (seats_in_row d)))"
  by (auto simp: validate_ticket_def)

text \<open>The tickets of \<open>test_ticket_validation\<close>: (5, 5) is accepted and (15, 5) rejected in
  the dome of ten rows; and a ticket whose seat is out of range.\<close>

theorem validate_ticket_iff_in_grid_witness:
  "validate_ticket 5 5 main_dome = Inr ()
   \<and> \<not> (1 \<le> (15::int) \<and> 15 \<le> rows main_dome)
   \<and> validate_ticket 15 5 main_dome = Inl (OutOfBoundsError Row 1 10)
   \<and> (1 \<le> (5::int) \<and> 5 \<le> rows main_dome) \<and> \<not> (1 \<le> (0::int) \<and> 0 \<le> seats_in_row main_dome)
   \<and> validate_ticket 5 0 main_dome = Inl (OutOfBoundsError Seat 1 10)"
  using validate_ticket_iff_in_grid [of 5 5 main_dome]
    validate_ticket_iff_in_grid [of 15 5 main_dome]
    validate_ticket_iff_in_grid [of 5 0 main_dome]
  by (simp add: main_dome_def)

text \<open>
  C8. For every user and store, createReservation with an empty list of ticket requests
  is rejected with EmptyReservationError, whose HTTP status is 400, and the store is
  unchanged: no reservation is persisted.
\<close>

theorem empty_reservation_rejected:
  "createReservation st u [] = (Inl EmptyReservationError, st)
   \<and> http_status EmptyReservationError = 400"
  by (simp add: createReservation_def)

section \<open>Availability\<close>

text \<open>
  C5 (as amended). Each evaluation of the queryset, which is what a read that is not
  served from the view cache returns, gives for a session with dome \<open>d\<close> the dome's
  capacity minus the number of tickets that reference the session, where capacity is
  rows * seats_in_row, provided the database engine computes that product and that
  difference exactly. The value is a function of the ticket table of the store it is
  evaluated on; the session row holds no counter.
\<close>

theorem tickets_available_is_capacity_minus_sold:
  assumes dome: "session_dome st s = Some d"
    and mul: "engine_mul e (rows d) (seats_in_row d) = Some (rows d * seats_in_row d)"
    and sub: "engine_sub e (rows d * seats_in_row d)
                (int (length (filter (\<lambda>t. show_session t = session_id s) (tickets st))))
              = Some (rows d * seats_in_row d
                      - int (length (filter (\<lambda>t. show_session t = session_id s) (tickets st))))"
  shows "tickets_available e st s
           = Inr (Some (capacity d
                   - int (length (filter (\<lambda>t. show_session t = session_id s) (tickets st)))))
         \<and> capacity d = rows d * seats_in_row d
         \<and> (find_session st pk = Some s \<and> cache_get key now c = Inr None
              \<longrightarrow> (\<exists>c'. dispatch e now key pk st c
                    = Inr (Some (capacity d
                        - int (length (filter (\<lambda>t. show_session t = session_id s) (tickets st)))),
                           c')))"
proof -
  let ?n = "int (length (filter (\<lambda>t. show_session t = session_id s) (tickets st)))"
  have ta: "tickets_available e st s = Inr (Some (capacity d - ?n))"
    using dome mul sub
    by (simp add: tickets_available_def Count_joined_tickets capacity_def)
  have "\<exists>c'. dispatch e now key pk st c = Inr (Some (capacity d - ?n), c')"
    if "find_session st pk = Some s" "cache_get key now c = Inr None"
  proof -
    from that(2) have "available c" by (auto simp: cache_get_def split: if_splits)
    with that ta show ?thesis
      by (simp add: dispatch_def retrieve_def cache_set_def)
  qed
  with ta show ?thesis by (simp add: capacity_def)
qed

text \<open>The example of the spec, on the 32-bit engine: a dome of 10 by 10 has capacity 100,
  and a read after the stored response has expired returns 99 once one ticket is sold.\<close>

theorem tickets_available_is_capacity_minus_sold_witness:
  "session_dome store1 session1 = Some main_dome
   \<and> engine_mul int4_engine (rows main_dome) (seats_in_row main_dome) = Some 100
   \<and> engine_sub int4_engine 100 1 = Some 99
   \<and> tickets_available int4_engine store1 session1 = Inr (Some 99)
   \<and> capacity main_dome = 100
   \<and> find_session store1 1 = Some session1
   \<and> cache_get session_key 400 cache1 = Inr None
   \<and> dispatch int4_engine 400 session_key 1 store1 cache1
       = Inr (Some 99, \<lparr>entries = [(session_key, (700, 99))], available = True\<rparr>)"
  using tickets_available_is_capacity_minus_sold
    [of store1 session1 main_dome int4_engine 1 session_key 400 cache1]
  by (simp add: read_defs example_defs capacity_def)

text \<open>
  C5 as it is stated fails, in two ways. A read is served from the view cache when a
  response is stored there: the read at time 0 stores 100; after a ticket of the session
  is saved, which evicts nothing, the store holds one ticket, capacity minus count is 99,
  and the read at time 100 still returns 100. And on the 32-bit engine the product for a
  dome of 50000 by 50000 is out of range: the query raises and returns no value.
\<close>

theorem cached_or_overflowing_read_counterexample:
  "dispatch int4_engine 0 session_key 1 store0 cache0 = Inr (Some 100, cache1)
   \<and> invalidate_cache Ticket ticket55 (post_save True) cache1 = Inr cache1
   \<and> map show_session (tickets store1) = [session_id session1]
   \<and> session_dome store1 session1 = Some main_dome
   \<and> capacity main_dome - int (length (tickets store1)) = 99
   \<and> dispatch int4_engine 100 session_key 1 store1 cache1 = Inr (Some 100, cache1)
   \<and> session_dome huge_store session1 = Some huge_dome
   \<and> capacity huge_dome = 2500000000
   \<and> tickets_available int4_engine huge_store session1 = Inl DataError"
  by (simp add: read_defs signal_defs example_defs capacity_def)

text \<open>
  C9 (as amended). Two reads of a session's availability through the cached view, the
  second not earlier than the first and no write between them, return the same value,
  provided that a cached response which serves the first read either has not expired at
  the second read or holds the value the queryset gives on the current store. A first
  read that is computed from the store (a cache miss) needs no proviso.
\<close>

theorem repeated_reads_agree:
  assumes r1: "dispatch e t1 key pk st c = Inr (v1, c1)"
    and r2: "dispatch e t2 key pk st c1 = Inr (v2, c2)"
    and le: "t1 \<le> t2"
    and fresh: "\<forall>expires v. map_of (entries c) key = Some (expires, v) \<and> t1 < expires
                  \<longrightarrow> t2 < expires \<or> retrieve e st pk = Inr (Some v)"
  shows "v1 = v2"
proof -
  from r1 have av: "available c"
    by (auto simp: dispatch_def cache_get_def split: if_splits)
  have miss: "v1 = v2" if m: "cache_get key t1 c = Inr None"
    and stay: "cache_get key t2 c = Inr None"
  proof (cases "retrieve e st pk")
    case (Inl err)
    with m r1 show ?thesis by (simp add: dispatch_def)
  next
    case (Inr w)
    show ?thesis
    proof (cases w)
      case None
      with Inr m r1 have "v1 = None" "c1 = c" by (auto simp: dispatch_def)
      with None Inr stay r2 show ?thesis by (auto simp: dispatch_def)
    next
      case (Some x)
      with Inr m r1 have v1: "v1 = Some x"
        and s: "cache_set key x cache_timeout t1 c = Inr c1"
        by (auto simp: dispatch_def split: sum.splits)
      from cache_get_after_set[OF s, of t2] Some Inr r2 s show ?thesis unfolding v1
        by (auto simp: dispatch_def cache_set_def split: if_splits sum.splits)
    qed
  qed
  show ?thesis
  proof (cases "map_of (entries c) key")
    case None
    with av have "cache_get key t1 c = Inr None" "cache_get key t2 c = Inr None"
      by (simp_all add: cache_get_def)
    then show ?thesis by (rule miss)
  next
    case (Some ev)
    obtain expires v where ev: "ev = (expires, v)" by (cases ev)
    show ?thesis
    proof (cases "t1 < expires")
      case True
      with Some ev av r1 have v1: "v1 = Some v" "c1 = c"
        by (auto simp: dispatch_def cache_get_def)
      from fresh Some ev True have "t2 < expires \<or> retrieve e st pk = Inr (Some v)" by blast
      with Some ev av r2 v1 show ?thesis
        by (auto simp: dispatch_def cache_get_def split: if_splits sum.splits)
    next
      case False
      with le have "\<not> t2 < expires" by simp
      with False Some ev av
      have "cache_get key t1 c = Inr None" "cache_get key t2 c = Inr None"
        by (simp_all add: cache_get_def)
      then show ?thesis by (rule miss)
    qed
  qed
qed

text \<open>A read at time 0 on an empty cache and a read at time 400, after the stored response
  has expired, with the store unchanged.\<close>

theorem repeated_reads_agree_witness:
  "dispatch int4_engine 0 session_key 1 store0 cache0 = Inr (Some 100, cache1)
   \<and> dispatch int4_engine 400 session_key 1 store0 cache1
       = Inr (Some 100, \<lparr>entries = [(session_key, (700, 100))], available = True\<rparr>)
   \<and> (0::nat) \<le> 400
   \<and> map_of (entries cache0) session_key = None
   \<and> Some (100::int) = Some 100"
  using repeated_reads_agree [of int4_engine 0 session_key 1 store0 cache0 "Some 100" cache1
      400 "Some 100" "\<lparr>entries = [(session_key, (700, 100))], available = True\<rparr>"]
  by (simp add: read_defs example_defs)

text \<open>
  C9 as it is stated fails. The read at time 0 stores 100 for 300 seconds. A reservation
  with one ticket is then created (\<open>store1\<close>); neither the signal of the reservation nor
  the one of the ticket evicts the stored response. After that write, and with no write
  between them, the read at time 100 returns the stored 100 and the read at time 400,
  when the response has expired, returns 99.
\<close>

theorem stale_read_then_expiry_counterexample:
  "dispatch int4_engine 0 session_key 1 store0 cache0 = Inr (Some 100, cache1)
   \<and> invalidate_cache Reservation \<lparr>reservation_id = 1, user = 7\<rparr> (post_save True) cache1
       = Inr cache1
   \<and> invalidate_cache Ticket ticket55 (post_save True) cache1 = Inr cache1
   \<and> dispatch int4_engine 100 session_key 1 store1 cache1 = Inr (Some 100, cache1)
   \<and> dispatch int4_engine 400 session_key 1 store1 cache1
       = Inr (Some 99, \<lparr>entries = [(session_key, (700, 99))], available = True\<rparr>)"
  by (simp add: read_defs signal_defs example_defs)

section \<open>Cache invalidation\<close>

text \<open>
  C6. For a create, update or delete of an instance of one of the five watched kinds, the
  receiver makes the one call \<open>delete_pattern\<close> with that kind's pattern; on a reachable
  cache the entries that remain are the former entries whose key does not match the
  pattern, in their order, so that the evicted entries are exactly the ones that match.
\<close>

theorem watched_write_evicts_pattern:
  assumes "sender \<in> {ShowTheme, PlanetariumDome, AstronomyShow, ShowSession, Reservation}"
  shows "\<exists>pattern. CACHE_PATTERNS sender = Some pattern
           \<and> invalidate_cache sender instance sig c = delete_pattern pattern c
           \<and> (available c \<longrightarrow>
                (\<exists>c'. invalidate_cache sender instance sig c = Inr c'
                   \<and> entries c' = filter (\<lambda>e. \<not> glob pattern (fst e)) (entries c)
                   \<and> set (entries c) - set (entries c')
                       = {e \<in> set (entries c). glob pattern (fst e)}))"
proof -
  from watched_pattern[OF assms] obtain pattern where
    p: "CACHE_PATTERNS sender = Some pattern" "pattern \<noteq> []" by blast
  have "invalidate_cache sender instance sig c = delete_pattern pattern c"
    using p by (simp add: invalidate_cache_def)
  moreover have "available c \<Longrightarrow> delete_pattern pattern c =
      Inr (c\<lparr>entries := filter (\<lambda>e. \<not> glob pattern (fst e)) (entries c)\<rparr>)"
    by (simp add: delete_pattern_def)
  ultimately show ?thesis using p(1) by auto
qed

text \<open>An update of a show session, on a cache that holds a response of the show-session
  view and one of the show-theme view: the first is evicted, the second stays.\<close>

theorem watched_write_evicts_pattern_witness:
  "ShowSession \<in> {ShowTheme, PlanetariumDome, AstronomyShow, ShowSession, Reservation}
   \<and> available \<lparr>entries = [(session_key, (300::nat, 100::int)), (theme_key, (300, 7))],
                 available = True\<rparr>
   \<and> invalidate_cache ShowSession session1 (post_save False)
        \<lparr>entries = [(session_key, (300::nat, 100::int)), (theme_key, (300, 7))],
         available = True\<rparr>
      = Inr \<lparr>entries = [(theme_key, (300, 7))], available = True\<rparr>"
  using watched_write_evicts_pattern [of ShowSession session1 "post_save False"
      "\<lparr>entries = [(session_key, (300::nat, 100::int)), (theme_key, (300, 7))],
        available = True\<rparr>"]
  by (simp add: signal_defs session_key_def theme_key_def)

text \<open>
  C7 (as amended). The receiver does not catch what the eviction raises. On a reachable
  cache the eviction step succeeds for every sender; on an unreachable cache a write to
  one of the five watched kinds makes the receiver raise the cache's error to its caller;
  a write to any other kind does not call the cache and cannot fail in this step.
\<close>

theorem eviction_outcome_follows_cache:
  "(available c \<longrightarrow> (\<exists>c'. invalidate_cache sender instance sig c = Inr c'))
   \<and> (\<not> available c
        \<and> sender \<in> {ShowTheme, PlanetariumDome, AstronomyShow, ShowSession, Reservation}
        \<longrightarrow> invalidate_cache sender instance sig c = Inl ConnectionError)
   \<and> (sender \<notin> {ShowTheme, PlanetariumDome, AstronomyShow, ShowSession, Reservation}
        \<longrightarrow> invalidate_cache sender instance sig c = Inr c)"
  by (cases sender) (simp_all add: invalidate_cache_def delete_pattern_def)

theorem eviction_outcome_follows_cache_witness:
  "available cache1
   \<and> invalidate_cache Reservation \<lparr>reservation_id = 1, user = 7\<rparr> (post_save True) cache1
       = Inr cache1
   \<and> \<not> available cache_down
   \<and> ShowSession \<in> {ShowTheme, PlanetariumDome, AstronomyShow, ShowSession, Reservation}
   \<and> invalidate_cache ShowSession session1 post_delete cache_down = Inl ConnectionError
   \<and> Ticket \<notin> {ShowTheme, PlanetariumDome, AstronomyShow, ShowSession, Reservation}
   \<and> invalidate_cache Ticket ticket55 (post_save True) cache_down = Inr cache_down"
  using eviction_outcome_follows_cache
      [of cache1 Reservation "\<lparr>reservation_id = 1, user = 7\<rparr>" "post_save True"]
    eviction_outcome_follows_cache [of cache_down ShowSession session1 post_delete]
    eviction_outcome_follows_cache [of cache_down Ticket ticket55 "post_save True"]
  by (simp add: cache1_def cache_down_def signal_defs session_key_def)

text \<open>
  C7 as it is stated fails: with the cache unreachable, saving a new reservation makes the
  receiver raise \<open>ConnectionError\<close> into the save that sent the signal.
\<close>

theorem eviction_failure_propagates_counterexample:
  "invalidate_cache Reservation \<lparr>reservation_id = 1, user = 7\<rparr> (post_save True) cache_down
     = Inl ConnectionError"
  by (simp add: signal_defs cache_down_def)

text \<open>
  C10. Saving or deleting a Ticket evicts no cache entry: Ticket is not a key of the
  pattern registry, so the receiver returns without calling the cache, and the cache
  after the signal is the cache before it. In particular the responses of the
  show-session view, which hold the derived tickets_available, all stay.
\<close>

theorem ticket_write_evicts_nothing:
  "invalidate_cache Ticket instance sig c = Inr c"
  by (simp add: invalidate_cache_def)

end
